theory Spec2Isabelle
  imports Main "HOL-Library.Word" "HOL-Library.AList"
begin

unbundle bit_operations_syntax

section \<open>Values of the Python program\<close>

text \<open>
  The program is \<^verbatim>\<open>safetensors_utils.py\<close>: the function \<^verbatim>\<open>read_safetensors_json\<close> and the
  class \<^verbatim>\<open>SafetensorsWrapper\<close>. A Python \<^verbatim>\<open>str\<close> is modelled by its UTF-8 bytes (an
  Isabelle \<open>string\<close>): equality, concatenation and the search for \<^verbatim>\<open>/\<close> agree on both
  views. A Python \<^verbatim>\<open>dict\<close> is an association list in insertion order; assignment
  \<^verbatim>\<open>d[k] = v\<close> is \<open>AList.update k v d\<close> (replace in place, or append).
\<close>

type_synonym byte = "8 word"
type_synonym path = string

text \<open>What \<^verbatim>\<open>json.loads\<close> returns. Numbers with a fraction or an exponent (Python floats)
  are not represented.\<close>

datatype json =
    JNull
  | JBool bool
  | JInt int
  | JStr string
  | JArr "json list"
  | JObj "(string \<times> json) list"

text \<open>The exceptions that the program raises or lets through.\<close>

datatype error =
    ValueError string
  | KeyError string
  | OSError path
  | StructError
  | OverflowError
  | MemoryError
  | UnicodeDecodeError
  | JSONDecodeError
  | TypeError
  | IndexError
  | AttributeError
  | SafetensorError

section \<open>The host: platform, file system, standard library\<close>

datatype byteorder = LittleEndian | BigEndian

text \<open>
  Everything \<^verbatim>\<open>read_safetensors_json\<close> takes from outside the repository:
  \<^item> \<open>sys_byteorder\<close>: the byte order of the machine, which the format character
    \<^verbatim>\<open>'Q'\<close> of \<^verbatim>\<open>struct.unpack\<close> follows when the format string has no prefix;
  \<^item> \<open>open_rb\<close>: the content of the file at a path at the time of the call
    (\<^verbatim>\<open>open(file_path, 'rb')\<close>), or the exception of the failed open;
  \<^item> \<open>alloc_limit\<close>: the largest buffer a single \<^verbatim>\<open>f.read(n)\<close> can allocate
    (a buffered read allocates \<open>n\<close> bytes before it reads);
  \<^item> \<open>decode_utf8\<close>: \<^verbatim>\<open>bytes.decode('utf-8')\<close>;
  \<^item> \<open>json_loads\<close>: \<^verbatim>\<open>json.loads\<close>.
\<close>

record host =
  sys_byteorder :: byteorder
  open_rb :: "path \<Rightarrow> error + byte list"
  alloc_limit :: nat
  decode_utf8 :: "byte list \<Rightarrow> error + string"
  json_loads :: "string \<Rightarrow> error + json"

text \<open>The unsigned 64-bit value of a byte sequence, least significant byte first.\<close>

definition u64_le :: "byte list \<Rightarrow> 64 word" where
  "u64_le bs = foldr (\<lambda>b acc. ucast b OR push_bit 8 acc) bs 0"

text \<open>\<^verbatim>\<open>struct.unpack('Q', b)[0]\<close>: native size (8 bytes) and native byte order;
  \<^verbatim>\<open>struct.error\<close> unless the buffer has exactly 8 bytes.\<close>

definition struct_unpack_Q :: "byteorder \<Rightarrow> byte list \<Rightarrow> error + 64 word" where
  "struct_unpack_Q bo b =
     (if length b \<noteq> 8 then Inl StructError
      else Inr (case bo of LittleEndian \<Rightarrow> u64_le b | BigEndian \<Rightarrow> u64_le (rev b)))"

text \<open>\<^verbatim>\<open>f.read(n)\<close> on the rest of a binary file (64-bit CPython): at most \<open>n\<close> bytes,
  fewer at the end of the file.\<close>

definition file_read :: "host \<Rightarrow> byte list \<Rightarrow> nat \<Rightarrow> error + byte list" where
  "file_read h rest n =
     (if 2 ^ 63 \<le> n then Inl OverflowError
      else if alloc_limit h < n then Inl MemoryError
      else Inr (take n rest))"

section \<open>read_safetensors_json\<close>

definition read_safetensors_json :: "host \<Rightarrow> path \<Rightarrow> error + json" where
  "read_safetensors_json h file_path =
     (case open_rb h file_path of
        Inl e \<Rightarrow> Inl e
      | Inr f \<Rightarrow>
          (let header_size_bytes = take 8 f in
           case struct_unpack_Q (sys_byteorder h) header_size_bytes of
             Inl e \<Rightarrow> Inl e
           | Inr header_size \<Rightarrow>
               (case file_read h (drop 8 f) (unat header_size) of
                  Inl e \<Rightarrow> Inl e
                | Inr header_bytes \<Rightarrow>
                    (case decode_utf8 h header_bytes of
                       Inl e \<Rightarrow> Inl e
                     | Inr header_str \<Rightarrow> json_loads h header_str))))"

section \<open>SafetensorsWrapper\<close>

text \<open>
  The \<^verbatim>\<open>safetensors\<close> package is not part of the repository: \<open>safe_open\<close> gives a
  handle (or raises), \<open>file_keys\<close> is the handle's \<^verbatim>\<open>keys()\<close> and \<open>get_tensor\<close> its
  \<^verbatim>\<open>get_tensor(key)\<close>. The keyword arguments \<^verbatim>\<open>**kv\<close> are passed through to
  \<^verbatim>\<open>safe_open\<close> unchanged and are part of the parameter \<open>safe_open\<close>.
\<close>

record ('h, 'v) safetensors_lib =
  safe_open :: "path \<Rightarrow> string \<Rightarrow> error + 'h"
  file_keys :: "'h \<Rightarrow> string list"
  get_tensor :: "'h \<Rightarrow> string \<Rightarrow> error + 'v"

text \<open>The object: \<^verbatim>\<open>self._file_paths\<close> and \<^verbatim>\<open>self._tensors\<close>.\<close>

record 'h wrapper =
  file_paths :: "path list"
  tensors :: "(string \<times> 'h) list"

text \<open>The argument \<^verbatim>\<open>file_paths\<close> of the constructor: a \<^verbatim>\<open>str\<close> or a list of \<^verbatim>\<open>str\<close>.\<close>

datatype paths_arg = PathStr path | PathList "path list"

definition collision_message :: "string \<Rightarrow> string" where
  "collision_message key =
     ''Tensor name collision detected: '' @ [CHR 0x27] @ key @ [CHR 0x27]
       @ '' is already loaded from another file.''"

definition not_found_message :: "string \<Rightarrow> string" where
  "not_found_message key =
     ''Tensor '' @ [CHR 0x27] @ key @ [CHR 0x27] @ '' not found in any wrapped files.''"

text \<open>A method that mutates \<open>self\<close> returns the object as the call left it, and the
  exception if one was raised.\<close>

text \<open>The loop of \<^verbatim>\<open>_load_file\<close> over \<^verbatim>\<open>file.keys()\<close>.\<close>

fun load_keys ::
  "'h \<Rightarrow> string list \<Rightarrow> (string \<times> 'h) list \<Rightarrow> (string \<times> 'h) list \<times> error option" where
  "load_keys file [] ts = (ts, None)"
| "load_keys file (key # rest) ts =
     (if key \<in> set (map fst ts) then (ts, Some (ValueError (collision_message key)))
      else load_keys file rest (AList.update key file ts))"

definition load_file ::
  "('h, 'v) safetensors_lib \<Rightarrow> 'h wrapper \<Rightarrow> path \<Rightarrow> string \<Rightarrow> 'h wrapper \<times> error option" where
  "load_file lib self file_path framework =
     (case safe_open lib file_path framework of
        Inl e \<Rightarrow> (self, Some e)
      | Inr file \<Rightarrow>
          (case load_keys file (file_keys lib file) (tensors self) of
             (ts, Some e) \<Rightarrow> (self\<lparr>tensors := ts\<rparr>, Some e)
           | (ts, None) \<Rightarrow>
               (self\<lparr>tensors := ts, file_paths := file_paths self @ [file_path]\<rparr>, None)))"

text \<open>The loop of \<^verbatim>\<open>__init__\<close> over the paths.\<close>

fun init_loop ::
  "('h, 'v) safetensors_lib \<Rightarrow> string \<Rightarrow> path list \<Rightarrow> 'h wrapper \<Rightarrow> 'h wrapper \<times> error option" where
  "init_loop lib framework [] self = (self, None)"
| "init_loop lib framework (file_path # rest) self =
     (case load_file lib self file_path framework of
        (self', Some e) \<Rightarrow> (self', Some e)
      | (self', None) \<Rightarrow> init_loop lib framework rest self')"

text \<open>\<^verbatim>\<open>__init__\<close>: a single \<^verbatim>\<open>str\<close> becomes a one-element list.\<close>

definition init ::
  "('h, 'v) safetensors_lib \<Rightarrow> paths_arg \<Rightarrow> string \<Rightarrow> 'h wrapper \<times> error option" where
  "init lib file_paths_arg framework =
     (let paths = (case file_paths_arg of PathStr s \<Rightarrow> [s] | PathList ps \<Rightarrow> ps)
      in init_loop lib framework paths \<lparr>file_paths = [], tensors = []\<rparr>)"

text \<open>The call \<^verbatim>\<open>SafetensorsWrapper(file_paths, framework)\<close> as the caller sees it: the
  object when \<^verbatim>\<open>__init__\<close> returns, the exception alone when it raises.\<close>

definition SafetensorsWrapper ::
  "('h, 'v) safetensors_lib \<Rightarrow> paths_arg \<Rightarrow> string \<Rightarrow> error + 'h wrapper" where
  "SafetensorsWrapper lib file_paths_arg framework =
     (case init lib file_paths_arg framework of
        (self, None) \<Rightarrow> Inr self
      | (self, Some e) \<Rightarrow> Inl e)"

subsection \<open>Queries\<close>

definition keys :: "'h wrapper \<Rightarrow> string list" where
  "keys self = map fst (tensors self)"

definition contains :: "'h wrapper \<Rightarrow> string \<Rightarrow> bool" where
  "contains self key = (key \<in> set (map fst (tensors self)))"

definition getitem :: "('h, 'v) safetensors_lib \<Rightarrow> 'h wrapper \<Rightarrow> string \<Rightarrow> error + 'v" where
  "getitem lib self key =
     (if key \<in> set (map fst (tensors self)) then
        (case map_of (tensors self) key of
           Some file \<Rightarrow> get_tensor lib file key
         | None \<Rightarrow> Inl (KeyError key))
      else Inl (KeyError (not_found_message key)))"

text \<open>\<^verbatim>\<open>get\<close>: any \<^verbatim>\<open>KeyError\<close> out of \<^verbatim>\<open>__getitem__\<close> becomes the default.\<close>

definition get :: "('h, 'v) safetensors_lib \<Rightarrow> 'h wrapper \<Rightarrow> string \<Rightarrow> 'v \<Rightarrow> error + 'v" where
  "get lib self key dflt =
     (case getitem lib self key of
        Inl (KeyError m) \<Rightarrow> Inr dflt
      | Inl e \<Rightarrow> Inl e
      | Inr v \<Rightarrow> Inr v)"

definition len :: "'h wrapper \<Rightarrow> nat" where
  "len self = length (tensors self)"

text \<open>\<^verbatim>\<open>str(n)\<close> of a natural number.\<close>

fun str_nat :: "nat \<Rightarrow> string" where
  "str_nat n =
     (if n < 10 then [char_of (48 + n)]
      else str_nat (n div 10) @ [char_of (48 + n mod 10)])"

declare str_nat.simps [simp del]

definition repr :: "'h wrapper \<Rightarrow> string" where
  "repr self =
     ''<SafetensorsWrapper: '' @ str_nat (len self) @ '' tensors from ''
       @ str_nat (length (tensors self)) @ '' files>''"

subsection \<open>get_index\<close>

text \<open>\<^verbatim>\<open>os.path.basename\<close> of \<^verbatim>\<open>posixpath\<close>: what follows the last \<^verbatim>\<open>/\<close>.\<close>

definition basename :: "path \<Rightarrow> string" where
  "basename p = rev (takeWhile (\<lambda>c. c \<noteq> CHR ''/'') (rev p))"

text \<open>The code points of a \<^verbatim>\<open>str\<close>, each as its UTF-8 bytes: a byte \<open>10xxxxxx\<close>
  continues the code point before it.\<close>

definition continuation_byte :: "char \<Rightarrow> bool" where
  "continuation_byte d = (128 \<le> (of_char d :: nat) \<and> (of_char d :: nat) < 192)"

function code_points :: "string \<Rightarrow> string list" where
  "code_points [] = []"
| "code_points (c # cs) =
     (c # takeWhile continuation_byte cs) # code_points (dropWhile continuation_byte cs)"
  by pat_completeness auto
termination
  by (relation "measure length") (auto simp: length_dropWhile_le less_Suc_eq_le)

text \<open>\<^verbatim>\<open>v[key]\<close> with a \<^verbatim>\<open>str\<close> key, and \<^verbatim>\<open>v[i]\<close> with the literal index 0 or 1.\<close>

fun getitem_str :: "json \<Rightarrow> string \<Rightarrow> error + json" where
  "getitem_str (JObj kvs) key =
     (case map_of kvs key of Some v \<Rightarrow> Inr v | None \<Rightarrow> Inl (KeyError key))"
| "getitem_str v key = Inl TypeError"

fun getitem_int :: "json \<Rightarrow> nat \<Rightarrow> error + json" where
  "getitem_int (JArr xs) i = (if i < length xs then Inr (xs ! i) else Inl IndexError)"
| "getitem_int (JStr s) i =
     (if i < length (code_points s) then Inr (JStr (code_points s ! i)) else Inl IndexError)"
| "getitem_int (JObj kvs) i = Inl (KeyError (str_nat i))"
| "getitem_int v i = Inl TypeError"

text \<open>\<^verbatim>\<open>a - b\<close> on values of a parsed header: integers, and booleans as 0 and 1.\<close>

fun as_int :: "json \<Rightarrow> int option" where
  "as_int (JInt n) = Some n"
| "as_int (JBool b) = Some (if b then 1 else 0)"
| "as_int v = None"

definition py_sub :: "json \<Rightarrow> json \<Rightarrow> error + int" where
  "py_sub a b =
     (case as_int a of
        None \<Rightarrow> Inl TypeError
      | Some x \<Rightarrow> (case as_int b of None \<Rightarrow> Inl TypeError | Some y \<Rightarrow> Inr (x - y)))"

text \<open>\<^verbatim>\<open>tensor_info['data_offsets'][1] - tensor_info['data_offsets'][0]\<close>, evaluated
  left to right.\<close>

definition entry_span :: "json \<Rightarrow> error + int" where
  "entry_span tensor_info =
     (case getitem_str tensor_info ''data_offsets'' of
        Inl e \<Rightarrow> Inl e
      | Inr offs1 \<Rightarrow>
          (case getitem_int offs1 1 of
             Inl e \<Rightarrow> Inl e
           | Inr hi \<Rightarrow>
               (case getitem_str tensor_info ''data_offsets'' of
                  Inl e \<Rightarrow> Inl e
                | Inr offs0 \<Rightarrow>
                    (case getitem_int offs0 0 of
                       Inl e \<Rightarrow> Inl e
                     | Inr lo \<Rightarrow> py_sub hi lo))))"

text \<open>\<^verbatim>\<open>metadata.items()\<close>: only a \<^verbatim>\<open>dict\<close> has the method.\<close>

fun dict_items :: "json \<Rightarrow> error + (string \<times> json) list" where
  "dict_items (JObj kvs) = Inr kvs"
| "dict_items v = Inl AttributeError"

text \<open>The inner loop of \<^verbatim>\<open>get_index\<close> over the entries of one header; the state is
  \<open>(weight_map, total_size)\<close>.\<close>

fun index_items ::
  "string \<Rightarrow> (string \<times> json) list \<Rightarrow> (string \<times> string) list \<times> int
     \<Rightarrow> error + (string \<times> string) list \<times> int" where
  "index_items file_name [] acc = Inr acc"
| "index_items file_name ((tensor_name, tensor_info) # rest) (weight_map, total_size) =
     (if tensor_name = ''__metadata__'' then index_items file_name rest (weight_map, total_size)
      else
        (let weight_map' = AList.update tensor_name file_name weight_map in
         case entry_span tensor_info of
           Inl e \<Rightarrow> Inl e
         | Inr d \<Rightarrow> index_items file_name rest (weight_map', total_size + d)))"

text \<open>The outer loop over \<^verbatim>\<open>self._file_paths\<close>.\<close>

fun index_files ::
  "host \<Rightarrow> path list \<Rightarrow> (string \<times> string) list \<times> int
     \<Rightarrow> error + (string \<times> string) list \<times> int" where
  "index_files h [] acc = Inr acc"
| "index_files h (file_path # rest) acc =
     (case read_safetensors_json h file_path of
        Inl e \<Rightarrow> Inl e
      | Inr metadata \<Rightarrow>
          (let file_name = basename file_path in
           case dict_items metadata of
             Inl e \<Rightarrow> Inl e
           | Inr items \<Rightarrow>
               (case index_items file_name items acc of
                  Inl e \<Rightarrow> Inl e
                | Inr acc' \<Rightarrow> index_files h rest acc')))"

text \<open>The result \<^verbatim>\<open>{"metadata": {"total_size": ...}, "weight_map": ...}\<close>.\<close>

record index =
  metadata_total_size :: int
  index_weight_map :: "(string \<times> string) list"

definition get_index :: "host \<Rightarrow> 'h wrapper \<Rightarrow> error + index" where
  "get_index h self =
     (case index_files h (file_paths self) ([], 0) of
        Inl e \<Rightarrow> Inl e
      | Inr (weight_map, total_size) \<Rightarrow>
          Inr \<lparr>metadata_total_size = total_size, index_weight_map = weight_map\<rparr>)"

section \<open>Notions used to state the properties\<close>

text \<open>
  What a path contributes when the constructor loads it: whether \<^verbatim>\<open>safe_open\<close> succeeds,
  and the names its handle lists.
\<close>

definition opened_keys :: "('h, 'v) safetensors_lib \<Rightarrow> string \<Rightarrow> path \<Rightarrow> string list" where
  "opened_keys lib framework p =
     (case safe_open lib p framework of Inr file \<Rightarrow> file_keys lib file | Inl e \<Rightarrow> [])"

definition opens :: "('h, 'v) safetensors_lib \<Rightarrow> string \<Rightarrow> path \<Rightarrow> bool" where
  "opens lib framework p = (case safe_open lib p framework of Inr file \<Rightarrow> True | Inl e \<Rightarrow> False)"

text \<open>
  The header of a file as \<^verbatim>\<open>get_index\<close> reads it, for stating what the index sums. An
  entry is well formed when it is an object whose \<^verbatim>\<open>data_offsets\<close> is a list that starts
  with two integers; \<open>entry_bytes\<close> is \<^verbatim>\<open>data_offsets[1] - data_offsets[0]\<close> of such an
  entry, and 0 for the reserved key \<^verbatim>\<open>__metadata__\<close>.
\<close>

definition entry_offsets :: "json \<Rightarrow> (int \<times> int) option" where
  "entry_offsets v =
     (case v of
        JObj kvs \<Rightarrow>
          (case map_of kvs ''data_offsets'' of
             Some (JArr (JInt a # JInt b # others)) \<Rightarrow> Some (a, b)
           | _ \<Rightarrow> None)
      | _ \<Rightarrow> None)"

definition entry_bytes :: "string \<times> json \<Rightarrow> int" where
  "entry_bytes kv =
     (if fst kv = ''__metadata__'' then 0
      else (case entry_offsets (snd kv) of Some (a, b) \<Rightarrow> b - a | None \<Rightarrow> 0))"

definition well_formed_header :: "(string \<times> json) list \<Rightarrow> bool" where
  "well_formed_header hdr =
     list_all (\<lambda>kv. fst kv = ''__metadata__'' \<or> entry_offsets (snd kv) \<noteq> None) hdr"

definition header_entries :: "host \<Rightarrow> path \<Rightarrow> (string \<times> json) list" where
  "header_entries h p =
     (case read_safetensors_json h p of Inr (JObj hdr) \<Rightarrow> hdr | _ \<Rightarrow> [])"

definition well_formed_file :: "host \<Rightarrow> path \<Rightarrow> bool" where
  "well_formed_file h p =
     (case read_safetensors_json h p of Inr (JObj hdr) \<Rightarrow> well_formed_header hdr | _ \<Rightarrow> False)"

definition declares :: "host \<Rightarrow> string \<Rightarrow> path \<Rightarrow> bool" where
  "declares h name p = (name \<noteq> ''__metadata__'' \<and> name \<in> set (map fst (header_entries h p)))"

section \<open>A concrete host and library\<close>

text \<open>
  The theorems below hold for every host and every library. To run the program on
  concrete files, \<open>demo_host\<close> supplies a standard library for ASCII text:
  \<open>decode_ascii\<close> decodes bytes below 128 (where UTF-8 is the identity), and
  \<open>loads_subset\<close> reads JSON objects, arrays, strings without escapes, integers,
  \<^verbatim>\<open>true\<close>, \<^verbatim>\<open>false\<close> and \<^verbatim>\<open>null\<close>, keeping the last value of a repeated key as
  \<^verbatim>\<open>json.loads\<close> does. The nesting depth is bounded by the length of the text.
\<close>

definition decode_ascii :: "byte list \<Rightarrow> error + string" where
  "decode_ascii bs =
     (if list_all (\<lambda>b. unat b < 128) bs then Inr (map (\<lambda>b. char_of (unat b)) bs)
      else Inl UnicodeDecodeError)"

definition json_ws :: "char \<Rightarrow> bool" where
  "json_ws c = (c = CHR 0x20 \<or> c = CHR 0x09 \<or> c = CHR 0x0A \<or> c = CHR 0x0D)"

definition is_digit :: "char \<Rightarrow> bool" where
  "is_digit c = (48 \<le> (of_char c :: nat) \<and> (of_char c :: nat) \<le> 57)"

fun scan_string :: "string \<Rightarrow> string \<Rightarrow> (string \<times> string) option" where
  "scan_string acc [] = None"
| "scan_string acc (c # cs) =
     (if c = CHR 0x22 then Some (rev acc, cs)
      else if c = CHR 0x5C \<or> (of_char c :: nat) < 32 then None
      else scan_string (c # acc) cs)"

definition scan_int :: "string \<Rightarrow> (int \<times> string) option" where
  "scan_int s =
     (let neg = (take 1 s = ''-'');
          s1 = (if neg then drop 1 s else s);
          ds = takeWhile is_digit s1;
          rest = dropWhile is_digit s1;
          n = int (foldl (\<lambda>n c. 10 * n + (of_char c - 48)) 0 ds)
      in if ds = [] \<or> (1 < length ds \<and> take 1 ds = ''0'')
            \<or> take 1 rest = ''.'' \<or> take 1 rest = ''e'' \<or> take 1 rest = ''E''
         then None
         else Some (if neg then - n else n, rest))"

fun parse_value :: "nat \<Rightarrow> string \<Rightarrow> (json \<times> string) option"
  and parse_elements :: "nat \<Rightarrow> json list \<Rightarrow> string \<Rightarrow> (json list \<times> string) option"
  and parse_members ::
    "nat \<Rightarrow> (string \<times> json) list \<Rightarrow> string \<Rightarrow> ((string \<times> json) list \<times> string) option" where
  "parse_value 0 s = None"
| "parse_value (Suc n) s =
     (case dropWhile json_ws s of
        [] \<Rightarrow> None
      | c # cs \<Rightarrow>
          if c = CHR 0x22 then map_option (\<lambda>(t, r). (JStr t, r)) (scan_string [] cs)
          else if c = CHR ''{'' then
            (if take 1 (dropWhile json_ws cs) = ''}'' then Some (JObj [], drop 1 (dropWhile json_ws cs))
             else map_option (\<lambda>(kvs, r). (JObj kvs, r)) (parse_members n [] cs))
          else if c = CHR ''['' then
            (if take 1 (dropWhile json_ws cs) = '']'' then Some (JArr [], drop 1 (dropWhile json_ws cs))
             else map_option (\<lambda>(vs, r). (JArr vs, r)) (parse_elements n [] cs))
          else if take 4 (c # cs) = ''null'' then Some (JNull, drop 4 (c # cs))
          else if take 4 (c # cs) = ''true'' then Some (JBool True, drop 4 (c # cs))
          else if take 5 (c # cs) = ''false'' then Some (JBool False, drop 5 (c # cs))
          else map_option (\<lambda>(i, r). (JInt i, r)) (scan_int (c # cs)))"
| "parse_elements 0 acc s = None"
| "parse_elements (Suc n) acc s =
     (case parse_value n s of
        None \<Rightarrow> None
      | Some (v, r) \<Rightarrow>
          (case dropWhile json_ws r of
             [] \<Rightarrow> None
           | c # r' \<Rightarrow>
               if c = CHR '','' then parse_elements n (acc @ [v]) r'
               else if c = CHR '']'' then Some (acc @ [v], r')
               else None))"
| "parse_members 0 acc s = None"
| "parse_members (Suc n) acc s =
     (case dropWhile json_ws s of
        [] \<Rightarrow> None
      | c # cs \<Rightarrow>
          if c \<noteq> CHR 0x22 then None
          else
            (case scan_string [] cs of
               None \<Rightarrow> None
             | Some (k, r) \<Rightarrow>
                 (case dropWhile json_ws r of
                    [] \<Rightarrow> None
                  | d # r1 \<Rightarrow>
                      if d \<noteq> CHR '':'' then None
                      else
                        (case parse_value n r1 of
                           None \<Rightarrow> None
                         | Some (v, r2) \<Rightarrow>
                             (case dropWhile json_ws r2 of
                                [] \<Rightarrow> None
                              | e # r3 \<Rightarrow>
                                  if e = CHR '','' then parse_members n (AList.update k v acc) r3
                                  else if e = CHR ''}'' then Some (AList.update k v acc, r3)
                                  else None)))))"

definition loads_subset :: "string \<Rightarrow> error + json" where
  "loads_subset s =
     (case parse_value (Suc (length s)) s of
        None \<Rightarrow> Inl JSONDecodeError
      | Some (v, r) \<Rightarrow> if dropWhile json_ws r = [] then Inr v else Inl JSONDecodeError)"

text \<open>
  The files: \<^verbatim>\<open>a\<close> is the example of the specification (one tensor of 8 bytes),
  \<^verbatim>\<open>model-1\<close> and \<^verbatim>\<open>model-2\<close> are two shards with disjoint names, \<^verbatim>\<open>model-3\<close>
  repeats the name \<^verbatim>\<open>w1\<close> of \<^verbatim>\<open>model-1\<close>, \<^verbatim>\<open>short\<close> declares a header of 3 bytes
  and holds 2, and \<^verbatim>\<open>tiny\<close> has 3 bytes in all. In \<open>demo_files_later\<close> the file
  \<^verbatim>\<open>model-2\<close> has been overwritten after loading and now declares \<^verbatim>\<open>w1\<close>.
\<close>

definition header_m3 :: string where
  \<open>header_m3 =
     ''{"w0":{"dtype":"U8","shape":[1],"data_offsets":[0,1]},"w1":{"dtype":"U8","shape":[1],"data_offsets":[1,2]}}''\<close>

definition header_a :: string where
  \<open>header_a = ''{"a":{"dtype":"F32","shape":[2],"data_offsets":[0,8]}}''\<close>

definition header_m1 :: string where
  \<open>header_m1 =
     ''{"__metadata__":{"format":"pt"},"w1":{"dtype":"U8","shape":[4],"data_offsets":[0,4]}}''\<close>

definition header_m2 :: string where
  \<open>header_m2 = ''{"w2":{"dtype":"U8","shape":[4],"data_offsets":[0,4]}}''\<close>

definition header_m2_later :: string where
  \<open>header_m2_later = ''{"w1":{"dtype":"U8","shape":[4],"data_offsets":[0,4]}}''\<close>

definition demo_files :: "path \<Rightarrow> error + byte list" where
  "demo_files p =
     (if p = ''ckpt/a.safetensors'' then
        Inr ([0x36, 0, 0, 0, 0, 0, 0, 0] @ map of_char header_a @ [0, 0, 128, 63, 0, 0, 0, 64])
      else if p = ''ckpt/model-1.safetensors'' then
        Inr ([0x55, 0, 0, 0, 0, 0, 0, 0] @ map of_char header_m1 @ [1, 2, 3, 4])
      else if p = ''ckpt/model-2.safetensors'' then
        Inr ([0x36, 0, 0, 0, 0, 0, 0, 0] @ map of_char header_m2 @ [5, 6, 7, 8])
      else if p = ''ckpt/model-3.safetensors'' then
        Inr ([0x6B, 0, 0, 0, 0, 0, 0, 0] @ map of_char header_m3 @ [7, 8])
      else if p = ''ckpt/short.safetensors'' then
        Inr ([3, 0, 0, 0, 0, 0, 0, 0] @ map of_char ''{}'')
      else if p = ''ckpt/tiny.safetensors'' then Inr [2, 0, 0]
      else Inl (OSError p))"

definition demo_files_later :: "path \<Rightarrow> error + byte list" where
  "demo_files_later =
     demo_files (''ckpt/model-2.safetensors'' :=
       Inr ([0x36, 0, 0, 0, 0, 0, 0, 0] @ map of_char header_m2_later @ [9, 9, 9, 9]))"

definition demo_host :: "byteorder \<Rightarrow> (path \<Rightarrow> error + byte list) \<Rightarrow> host" where
  "demo_host bo files =
     \<lparr>sys_byteorder = bo, open_rb = files, alloc_limit = 2 ^ 32,
      decode_utf8 = decode_ascii, json_loads = loads_subset\<rparr>"

text \<open>
  The library on these files: a handle is the path, and \<^verbatim>\<open>get_tensor\<close> gives the bytes of
  the tensor.
\<close>

definition demo_lib :: "(path, byte list) safetensors_lib" where
  "demo_lib =
     \<lparr>safe_open = (\<lambda>p framework.
        if p \<in> set [''ckpt/a.safetensors'', ''ckpt/model-1.safetensors'',
                     ''ckpt/model-2.safetensors'', ''ckpt/model-3.safetensors'']
        then Inr p else Inl (OSError p)),
      file_keys = (\<lambda>h.
        if h = ''ckpt/a.safetensors'' then [''a'']
        else if h = ''ckpt/model-1.safetensors'' then [''w1'']
        else if h = ''ckpt/model-2.safetensors'' then [''w2'']
        else if h = ''ckpt/model-3.safetensors'' then [''w0'', ''w1'']
        else []),
      get_tensor = (\<lambda>h key.
        if h = ''ckpt/model-1.safetensors'' \<and> key = ''w1'' then Inr [1, 2, 3, 4]
        else if h = ''ckpt/model-2.safetensors'' \<and> key = ''w2'' then Inr [5, 6, 7, 8]
        else if h = ''ckpt/model-3.safetensors'' \<and> key = ''w0'' then Inr [7]
        else if h = ''ckpt/model-3.safetensors'' \<and> key = ''w1'' then Inr [8]
        else if h = ''ckpt/a.safetensors'' \<and> key = ''a'' then Inr [0, 0, 128, 63, 0, 0, 0, 64]
        else Inl SafetensorError)\<rparr>"

text \<open>
  The object that loading \<^verbatim>\<open>model-1\<close> and \<^verbatim>\<open>model-2\<close> constructs.
\<close>

definition demo_wrapper :: "path wrapper" where
  "demo_wrapper =
     \<lparr>file_paths = [''ckpt/model-1.safetensors'', ''ckpt/model-2.safetensors''],
      tensors = [(''w1'', ''ckpt/model-1.safetensors''), (''w2'', ''ckpt/model-2.safetensors'')]\<rparr>"

section \<open>Running the program on the concrete files\<close>

lemma unat_of_char: "unat (of_char c :: byte) = (of_char c :: nat)"
proof -
  have "unat (of_nat (of_char c) :: byte) = (of_char c :: nat) mod 256"
    by (simp only: unat_of_nat) simp
  then show ?thesis
    by (simp only: of_nat_of_char of_char_mod_256)
qed

lemma decode_ascii_text:
  "list_all (\<lambda>c. (of_char c :: nat) < 128) text \<Longrightarrow> decode_ascii (map of_char text) = Inr text"
  by (simp add: decode_ascii_def list_all_iff unat_of_char comp_def map_idI)

lemma demo_read:
  assumes "length pre = 8" and "unat (u64_le pre) = n" and "n \<le> 2 ^ 32"
    and "take n rest = map of_char text"
    and "list_all (\<lambda>c. (of_char c :: nat) < 128) text"
    and "files p = Inr (pre @ rest)"
  shows "read_safetensors_json (demo_host LittleEndian files) p = loads_subset text"
proof -
  have "n < 2 ^ 63"
    using assms(3) by (rule le_less_trans) simp
  then show ?thesis
    using assms decode_ascii_text [OF assms(5)]
    by (simp add: read_safetensors_json_def struct_unpack_Q_def file_read_def demo_host_def)
qed

lemma loads_a:
  "loads_subset header_a =
     Inr (JObj [(''a'', JObj [(''dtype'', JStr ''F32''), (''shape'', JArr [JInt 2]),
                              (''data_offsets'', JArr [JInt 0, JInt 8])])])"
  by code_simp

lemma loads_m1:
  "loads_subset header_m1 =
     Inr (JObj [(''__metadata__'', JObj [(''format'', JStr ''pt'')]),
                (''w1'', JObj [(''dtype'', JStr ''U8''), (''shape'', JArr [JInt 4]),
                              (''data_offsets'', JArr [JInt 0, JInt 4])])])"
  by code_simp

lemma loads_m2:
  "loads_subset header_m2 =
     Inr (JObj [(''w2'', JObj [(''dtype'', JStr ''U8''), (''shape'', JArr [JInt 4]),
                              (''data_offsets'', JArr [JInt 0, JInt 4])])])"
  by code_simp

lemma loads_m2_later:
  "loads_subset header_m2_later =
     Inr (JObj [(''w1'', JObj [(''dtype'', JStr ''U8''), (''shape'', JArr [JInt 4]),
                              (''data_offsets'', JArr [JInt 0, JInt 4])])])"
  by code_simp

lemma loads_empty: "loads_subset ''{}'' = Inr (JObj [])"
  by code_simp

lemma demo_read_a:
  "read_safetensors_json (demo_host LittleEndian demo_files) ''ckpt/a.safetensors'' =
     loads_subset header_a"
  by (rule demo_read [where pre = "[0x36, 0, 0, 0, 0, 0, 0, 0]" and n = 54])
    (simp_all add: demo_files_def header_a_def u64_le_def)

lemma demo_read_m1:
  "read_safetensors_json (demo_host LittleEndian files) ''ckpt/model-1.safetensors'' =
     loads_subset header_m1"
  if "files ''ckpt/model-1.safetensors'' = demo_files ''ckpt/model-1.safetensors''"
  by (rule demo_read [where pre = "[0x55, 0, 0, 0, 0, 0, 0, 0]" and n = 85])
    (simp_all add: that demo_files_def header_m1_def u64_le_def)

lemma demo_read_m2:
  "read_safetensors_json (demo_host LittleEndian demo_files) ''ckpt/model-2.safetensors'' =
     loads_subset header_m2"
  by (rule demo_read [where pre = "[0x36, 0, 0, 0, 0, 0, 0, 0]" and n = 54])
    (simp_all add: demo_files_def header_m2_def u64_le_def)

lemma demo_read_m2_later:
  "read_safetensors_json (demo_host LittleEndian demo_files_later) ''ckpt/model-2.safetensors'' =
     loads_subset header_m2_later"
  by (rule demo_read [where pre = "[0x36, 0, 0, 0, 0, 0, 0, 0]" and n = 54])
    (simp_all add: demo_files_later_def header_m2_later_def u64_le_def)

lemma demo_read_short:
  "read_safetensors_json (demo_host LittleEndian demo_files) ''ckpt/short.safetensors'' =
     loads_subset ''{}''"
  by (rule demo_read [where pre = "[3, 0, 0, 0, 0, 0, 0, 0]" and n = 3])
    (simp_all add: demo_files_def u64_le_def)

lemma demo_read_tiny:
  "read_safetensors_json (demo_host LittleEndian demo_files) ''ckpt/tiny.safetensors'' = Inl StructError"
  by (simp add: read_safetensors_json_def struct_unpack_Q_def demo_host_def demo_files_def)

lemma unpack_be: "struct_unpack_Q BigEndian [0x36, 0, 0, 0, 0, 0, 0, 0] = Inr 0x3600000000000000"
  by (simp add: struct_unpack_Q_def u64_le_def)

lemma unpack_le: "struct_unpack_Q LittleEndian [0x36, 0, 0, 0, 0, 0, 0, 0] = Inr 0x36"
  by (simp add: struct_unpack_Q_def u64_le_def)

lemma demo_read_a_be:
  "read_safetensors_json (demo_host BigEndian demo_files) ''ckpt/a.safetensors'' = Inl MemoryError"
  by (simp add: read_safetensors_json_def demo_host_def demo_files_def unpack_be file_read_def)

lemma demo_later_m1:
  "demo_files_later ''ckpt/model-1.safetensors'' = demo_files ''ckpt/model-1.safetensors''"
  by (simp add: demo_files_later_def)

lemma demo_header_entries:
  "files ''ckpt/model-1.safetensors'' = demo_files ''ckpt/model-1.safetensors'' \<Longrightarrow>
   header_entries (demo_host LittleEndian files) ''ckpt/model-1.safetensors'' =
     [(''__metadata__'', JObj [(''format'', JStr ''pt'')]),
      (''w1'', JObj [(''dtype'', JStr ''U8''), (''shape'', JArr [JInt 4]),
                     (''data_offsets'', JArr [JInt 0, JInt 4])])]"
  "header_entries (demo_host LittleEndian demo_files) ''ckpt/model-2.safetensors'' =
     [(''w2'', JObj [(''dtype'', JStr ''U8''), (''shape'', JArr [JInt 4]),
                     (''data_offsets'', JArr [JInt 0, JInt 4])])]"
  "header_entries (demo_host LittleEndian demo_files_later) ''ckpt/model-2.safetensors'' =
     [(''w1'', JObj [(''dtype'', JStr ''U8''), (''shape'', JArr [JInt 4]),
                     (''data_offsets'', JArr [JInt 0, JInt 4])])]"
  by (simp_all add: header_entries_def demo_read_m1 loads_m1 demo_read_m2 loads_m2
      demo_read_m2_later loads_m2_later)

lemma demo_well_formed:
  "files ''ckpt/model-1.safetensors'' = demo_files ''ckpt/model-1.safetensors'' \<Longrightarrow>
   well_formed_file (demo_host LittleEndian files) ''ckpt/model-1.safetensors''"
  "well_formed_file (demo_host LittleEndian demo_files) ''ckpt/model-2.safetensors''"
  "well_formed_file (demo_host LittleEndian demo_files_later) ''ckpt/model-2.safetensors''"
  by (simp_all add: well_formed_file_def demo_read_m1 loads_m1 demo_read_m2 loads_m2
      demo_read_m2_later loads_m2_later well_formed_header_def entry_offsets_def)

lemma demo_construct:
  "SafetensorsWrapper demo_lib
     (PathList [''ckpt/model-1.safetensors'', ''ckpt/model-2.safetensors'']) ''pt'' = Inr demo_wrapper"
  by (simp add: SafetensorsWrapper_def init_def load_file_def demo_lib_def demo_wrapper_def)

lemma demo_construct_1:
  "SafetensorsWrapper demo_lib (PathList [''ckpt/model-1.safetensors'']) ''pt'' =
     Inr \<lparr>file_paths = [''ckpt/model-1.safetensors''],
          tensors = [(''w1'', ''ckpt/model-1.safetensors'')]\<rparr>"
  by (simp add: SafetensorsWrapper_def init_def load_file_def demo_lib_def)

lemma demo_construct_2:
  "SafetensorsWrapper demo_lib (PathList [''ckpt/model-2.safetensors'']) ''pt'' =
     Inr \<lparr>file_paths = [''ckpt/model-2.safetensors''],
          tensors = [(''w2'', ''ckpt/model-2.safetensors'')]\<rparr>"
  by (simp add: SafetensorsWrapper_def init_def load_file_def demo_lib_def)

section \<open>The loading loops\<close>

lemma update_fresh: "k \<notin> fst ` set al \<Longrightarrow> AList.update k v al = al @ [(k, v)]"
  by (induction al) auto

lemma load_keys_fresh:
  "distinct ks \<Longrightarrow> set ks \<inter> fst ` set ts = {} \<Longrightarrow>
   load_keys file ks ts = (ts @ map (\<lambda>k. (k, file)) ks, None)"
proof (induction ks arbitrary: ts)
  case Nil
  then show ?case by simp
next
  case (Cons k ks)
  from Cons.prems have fresh: "k \<notin> fst ` set ts" by auto
  have "set ks \<inter> fst ` set (ts @ [(k, file)]) = {}"
    using Cons.prems by auto
  with Cons.IH [of "ts @ [(k, file)]"] Cons.prems fresh show ?case
    by (simp add: update_fresh)
qed

lemma load_keys_None:
  "load_keys file ks ts = (ts', None) \<Longrightarrow>
   ts' = ts @ map (\<lambda>k. (k, file)) ks \<and> distinct ks \<and> set ks \<inter> fst ` set ts = {}"
proof (induction ks arbitrary: ts)
  case Nil
  then show ?case by simp
next
  case (Cons k ks)
  from Cons.prems have fresh: "k \<notin> fst ` set ts"
    by (auto split: if_splits)
  with Cons.prems have "load_keys file ks (ts @ [(k, file)]) = (ts', None)"
    by (simp add: update_fresh split: if_splits)
  from Cons.IH [OF this] fresh show ?case by auto
qed

lemma load_keys_append:
  "load_keys file (ks1 @ ks2) ts =
     (case load_keys file ks1 ts of (ts', None) \<Rightarrow> load_keys file ks2 ts' | (ts', Some e) \<Rightarrow> (ts', Some e))"
  by (induction ks1 arbitrary: ts) auto

lemma load_keys_collision:
  assumes "distinct ks1" and "set ks1 \<inter> fst ` set ts = {}"
    and "key \<in> fst ` set ts \<union> set ks1"
  shows "load_keys file (ks1 @ key # ks2) ts =
           (ts @ map (\<lambda>k. (k, file)) ks1, Some (ValueError (collision_message key)))"
proof -
  have "key \<in> fst ` set (ts @ map (\<lambda>k. (k, file)) ks1)"
    using assms(3) by (auto simp: image_Un image_image)
  then show ?thesis
    using load_keys_fresh [OF assms(1,2), of "file"]
    by (simp add: load_keys_append image_Un image_image)
qed

lemma init_loop_append:
  "init_loop lib framework (xs @ ys) s =
     (case init_loop lib framework xs s of
        (s', None) \<Rightarrow> init_loop lib framework ys s'
      | (s', Some e) \<Rightarrow> (s', Some e))"
  by (induction xs arbitrary: s) (auto split: prod.splits option.splits)

lemma load_file_None:
  "load_file lib s p framework = (s', None) \<Longrightarrow>
   opens lib framework p
   \<and> map fst (tensors s') = map fst (tensors s) @ opened_keys lib framework p
   \<and> file_paths s' = file_paths s @ [p]
   \<and> distinct (opened_keys lib framework p)
   \<and> set (opened_keys lib framework p) \<inter> set (map fst (tensors s)) = {}"
  by (auto simp: load_file_def opens_def opened_keys_def comp_def
      split: sum.splits prod.splits option.splits dest!: load_keys_None)

lemma load_file_fresh:
  assumes "opens lib framework p" and "distinct (opened_keys lib framework p)"
    and "set (opened_keys lib framework p) \<inter> set (map fst (tensors s)) = {}"
  shows "\<exists>s'. load_file lib s p framework = (s', None)"
proof -
  from assms(1) obtain fl where f: "safe_open lib p framework = Inr fl"
    by (auto simp: opens_def split: sum.splits)
  with assms(2,3) have "load_keys fl (file_keys lib fl) (tensors s)
      = (tensors s @ map (\<lambda>k. (k, fl)) (file_keys lib fl), None)"
    by (intro load_keys_fresh) (auto simp: opened_keys_def)
  with f show ?thesis by (simp add: load_file_def)
qed

lemma init_loop_None:
  "init_loop lib framework ps s = (s', None) \<Longrightarrow>
   list_all (opens lib framework) ps
   \<and> map fst (tensors s') = map fst (tensors s) @ concat (map (opened_keys lib framework) ps)
   \<and> file_paths s' = file_paths s @ ps
   \<and> (distinct (map fst (tensors s)) \<longrightarrow> distinct (map fst (tensors s')))"
proof (induction ps arbitrary: s)
  case Nil
  then show ?case by simp
next
  case (Cons p ps)
  from Cons.prems obtain s1 where l: "load_file lib s p framework = (s1, None)"
    and r: "init_loop lib framework ps s1 = (s', None)"
    by (auto split: prod.splits option.splits)
  note a = load_file_None [OF l] and b = Cons.IH [OF r]
  have d: "distinct (map fst (tensors s)) \<Longrightarrow> distinct (map fst (tensors s1))"
    using a by auto
  have "list_all (opens lib framework) (p # ps)"
    using a b by simp
  moreover have "map fst (tensors s') =
      map fst (tensors s) @ concat (map (opened_keys lib framework) (p # ps))"
    using a b by simp
  moreover have "file_paths s' = file_paths s @ p # ps"
    using a b by simp
  moreover have "distinct (map fst (tensors s)) \<longrightarrow> distinct (map fst (tensors s'))"
    using d b by blast
  ultimately show ?case by blast
qed

lemma init_loop_fresh:
  "list_all (opens lib framework) ps \<Longrightarrow>
   distinct (map fst (tensors s) @ concat (map (opened_keys lib framework) ps)) \<Longrightarrow>
   \<exists>s'. init_loop lib framework ps s = (s', None)"
proof (induction ps arbitrary: s)
  case Nil
  then show ?case by simp
next
  case (Cons p ps)
  from Cons.prems have "\<exists>s1. load_file lib s p framework = (s1, None)"
    by (intro load_file_fresh) auto
  then obtain s1 where l: "load_file lib s p framework = (s1, None)" ..
  from load_file_None [OF l] Cons.prems
  have "distinct (map fst (tensors s1) @ concat (map (opened_keys lib framework) ps))"
    by auto
  with Cons.IH [of s1] Cons.prems obtain s' where "init_loop lib framework ps s1 = (s', None)"
    by auto
  with l show ?case by simp
qed

lemma init_loop_collision:
  assumes "list_all (opens lib framework) ps1"
    and "safe_open lib p framework = Inr f"
    and "file_keys lib f = ks1 @ key # ks2"
    and "distinct (map fst (tensors s) @ concat (map (opened_keys lib framework) ps1) @ ks1)"
    and "key \<in> set (map fst (tensors s) @ concat (map (opened_keys lib framework) ps1) @ ks1)"
  shows "\<exists>s'. init_loop lib framework (ps1 @ p # ps2) s = (s', Some (ValueError (collision_message key)))
           \<and> map fst (tensors s') =
               map fst (tensors s) @ concat (map (opened_keys lib framework) ps1) @ ks1
           \<and> file_paths s' = file_paths s @ ps1"
proof -
  from assms(4) have "distinct (map fst (tensors s) @ concat (map (opened_keys lib framework) ps1))"
    by auto
  from init_loop_fresh [OF assms(1) this]
  obtain s1 where s1: "init_loop lib framework ps1 s = (s1, None)" ..
  note a = init_loop_None [OF s1]
  let ?ts = "tensors s1"
  have d: "distinct ks1" and i: "set ks1 \<inter> fst ` set ?ts = {}"
    using assms(4) a by (auto simp flip: set_map)
  have k: "key \<in> fst ` set ?ts \<union> set ks1"
    using assms(5) a by (auto simp flip: set_map)
  have "load_keys f (file_keys lib f) ?ts =
          (?ts @ map (\<lambda>k. (k, f)) ks1, Some (ValueError (collision_message key)))"
    unfolding assms(3) by (rule load_keys_collision [OF d i k])
  then have "load_file lib s1 p framework =
      (s1\<lparr>tensors := ?ts @ map (\<lambda>k. (k, f)) ks1\<rparr>, Some (ValueError (collision_message key)))"
    using assms(2) by (simp add: load_file_def)
  then have "init_loop lib framework (ps1 @ p # ps2) s =
      (s1\<lparr>tensors := ?ts @ map (\<lambda>k. (k, f)) ks1\<rparr>, Some (ValueError (collision_message key)))"
    using s1 by (simp add: init_loop_append)
  moreover have "map fst (?ts @ map (\<lambda>k. (k, f)) ks1) =
      map fst (tensors s) @ concat (map (opened_keys lib framework) ps1) @ ks1"
    using a by (simp add: comp_def)
  ultimately show ?thesis using a by simp
qed

lemma constructed_iff:
  "SafetensorsWrapper lib arg framework = Inr self \<longleftrightarrow>
   init_loop lib framework (case arg of PathStr s \<Rightarrow> [s] | PathList ps \<Rightarrow> ps)
     \<lparr>file_paths = [], tensors = []\<rparr> = (self, None)"
  by (auto simp: SafetensorsWrapper_def init_def split: prod.splits option.splits)

lemma constructed_keys:
  assumes "SafetensorsWrapper lib arg framework = Inr self"
    and "paths = (case arg of PathStr s \<Rightarrow> [s] | PathList ps \<Rightarrow> ps)"
  shows "distinct (keys self)" and "keys self = concat (map (opened_keys lib framework) paths)"
    and "list_all (opens lib framework) paths" and "file_paths self = paths"
proof -
  let ?s0 = "\<lparr>file_paths = [], tensors = []\<rparr> :: 'a wrapper"
  from assms have "init_loop lib framework paths ?s0 = (self, None)"
    by (simp add: constructed_iff)
  note a = init_loop_None [OF this]
  from a have "distinct (map fst (tensors ?s0)) \<longrightarrow> distinct (map fst (tensors self))"
    by blast
  then show "distinct (keys self)"
    by (simp add: keys_def)
  from a show "keys self = concat (map (opened_keys lib framework) paths)"
    by (simp add: keys_def)
  from a show "list_all (opens lib framework) paths" by blast
  from a show "file_paths self = paths" by simp
qed

lemma len_keys: "len self = length (keys self)"
  by (simp add: len_def keys_def)

lemma construct_fresh:
  assumes "list_all (opens lib framework) ps"
    and "distinct (concat (map (opened_keys lib framework) ps))"
  shows "\<exists>self. SafetensorsWrapper lib (PathList ps) framework = Inr self
           \<and> keys self = concat (map (opened_keys lib framework) ps)"
proof -
  let ?s0 = "\<lparr>file_paths = [], tensors = []\<rparr> :: 'a wrapper"
  from assms have "\<exists>s'. init_loop lib framework ps ?s0 = (s', None)"
    by (intro init_loop_fresh) simp_all
  then obtain s' where "init_loop lib framework ps ?s0 = (s', None)" ..
  then have c: "SafetensorsWrapper lib (PathList ps) framework = Inr s'"
    by (simp add: constructed_iff)
  from constructed_keys(2) [OF c] c show ?thesis by auto
qed

section \<open>Collisions abort the construction (C1)\<close>

text \<open>
  C1. Let the files of \<open>ps1\<close> open and list pairwise different names, and let the next
  file \<open>p\<close> list \<open>ks1\<close>, then \<open>key\<close>, where \<open>ks1\<close> is new and \<open>key\<close> is already in the
  registry (from a file of \<open>ps1\<close>, or from \<open>ks1\<close>). Then the constructor call raises the
  collision error whose message names \<open>key\<close>, and the caller gets no object. Inside
  \<^verbatim>\<open>__init__\<close> the object holds the names inserted so far and the paths of \<open>ps1\<close>: the
  exception is raised at once, and this partial state does not reach the caller.
\<close>

theorem collision_aborts_construction:
  assumes "list_all (opens lib framework) ps1"
    and "safe_open lib p framework = Inr f"
    and "file_keys lib f = ks1 @ key # ks2"
    and "distinct (concat (map (opened_keys lib framework) ps1) @ ks1)"
    and "key \<in> set (concat (map (opened_keys lib framework) ps1) @ ks1)"
  shows "SafetensorsWrapper lib (PathList (ps1 @ p # ps2)) framework
           = Inl (ValueError (collision_message key))
         \<and> (\<exists>self. init lib (PathList (ps1 @ p # ps2)) framework
                      = (self, Some (ValueError (collision_message key)))
               \<and> keys self = concat (map (opened_keys lib framework) ps1) @ ks1
               \<and> file_paths self = ps1)"
proof -
  let ?s0 = "\<lparr>file_paths = [], tensors = []\<rparr> :: 'a wrapper"
  have "\<exists>s'. init_loop lib framework (ps1 @ p # ps2) ?s0
            = (s', Some (ValueError (collision_message key)))
          \<and> map fst (tensors s') =
               map fst (tensors ?s0) @ concat (map (opened_keys lib framework) ps1) @ ks1
          \<and> file_paths s' = file_paths ?s0 @ ps1"
    using assms by (intro init_loop_collision) simp_all
  then show ?thesis
    by (auto simp: SafetensorsWrapper_def init_def keys_def)
qed

theorem collision_aborts_construction_witness:
  "safe_open demo_lib ''ckpt/model-3.safetensors'' ''pt'' = Inr ''ckpt/model-3.safetensors''
   \<and> file_keys demo_lib ''ckpt/model-3.safetensors'' = [''w0''] @ ''w1'' # []
   \<and> ''w1'' \<in> set (opened_keys demo_lib ''pt'' ''ckpt/model-1.safetensors'')
   \<and> SafetensorsWrapper demo_lib
        (PathList [''ckpt/model-1.safetensors'', ''ckpt/model-3.safetensors'']) ''pt''
       = Inl (ValueError (collision_message ''w1''))"
  using collision_aborts_construction [where lib = demo_lib and framework = "''pt''"
      and ?ps1.0 = "[''ckpt/model-1.safetensors'']" and p = "''ckpt/model-3.safetensors''"
      and f = "''ckpt/model-3.safetensors''" and ?ks1.0 = "[''w0'']" and key = "''w1''"
      and ?ks2.0 = "[]" and ?ps2.0 = "[]"]
  by (simp add: demo_lib_def opens_def opened_keys_def)

section \<open>The keys of a constructed object (C9)\<close>

text \<open>
  C9. When the constructor returns an object, \<^verbatim>\<open>keys()\<close> is the concatenation of the
  names listed by the loaded files, in load order, and has no repetition: every loaded name
  occurs exactly once. Every path was opened, and \<^verbatim>\<open>_file_paths\<close> is the list of paths.
\<close>

theorem keys_hold_each_loaded_name_once:
  assumes "SafetensorsWrapper lib arg framework = Inr self"
    and "paths = (case arg of PathStr s \<Rightarrow> [s] | PathList ps \<Rightarrow> ps)"
  shows "distinct (keys self)
         \<and> keys self = concat (map (opened_keys lib framework) paths)
         \<and> list_all (opens lib framework) paths
         \<and> file_paths self = paths"
  using constructed_keys [OF assms] by simp

theorem keys_hold_each_loaded_name_once_witness:
  "SafetensorsWrapper demo_lib
     (PathList [''ckpt/model-1.safetensors'', ''ckpt/model-2.safetensors'']) ''pt'' = Inr demo_wrapper
   \<and> distinct (keys demo_wrapper) \<and> keys demo_wrapper = [''w1'', ''w2'']"
proof -
  from keys_hold_each_loaded_name_once [OF demo_construct refl]
  have "distinct (keys demo_wrapper)" by blast
  moreover have "keys demo_wrapper = [''w1'', ''w2'']"
    by (simp add: keys_def demo_wrapper_def)
  ultimately show ?thesis
    using demo_construct by simp
qed

section \<open>The length (C7)\<close>

text \<open>
  C7. First part: for a single file whose header \<^verbatim>\<open>read_safetensors_json\<close> parses to the
  dictionary \<open>hdr\<close> and whose handle lists, without repetition, the keys of \<open>hdr\<close> other
  than \<^verbatim>\<open>__metadata__\<close>, the constructor returns an object whose \<^verbatim>\<open>len\<close> is the number
  of those keys. Second part: when two files each construct an object and the two objects
  share no name, the two files together construct an object whose \<^verbatim>\<open>len\<close> is the sum of
  the two lengths.
\<close>

theorem len_counts_header_keys:
  "(read_safetensors_json h p = Inr (JObj hdr) \<and> distinct (map fst hdr)
      \<and> safe_open lib p framework = Inr f \<and> distinct (file_keys lib f)
      \<and> set (file_keys lib f) = set (map fst hdr) - {''__metadata__''}
    \<longrightarrow> (\<exists>self. SafetensorsWrapper lib (PathList [p]) framework = Inr self
           \<and> len self = length [k \<leftarrow> map fst hdr. k \<noteq> ''__metadata__'']))
   \<and> (SafetensorsWrapper lib (PathList [p1]) framework = Inr s1
      \<and> SafetensorsWrapper lib (PathList [p2]) framework = Inr s2
      \<and> set (keys s1) \<inter> set (keys s2) = {}
    \<longrightarrow> (\<exists>self. SafetensorsWrapper lib (PathList [p1, p2]) framework = Inr self
           \<and> len self = len s1 + len s2))"
proof (intro conjI impI)
  let ?md = "''__metadata__''"
  {
    assume a: "read_safetensors_json h p = Inr (JObj hdr) \<and> distinct (map fst hdr)
      \<and> safe_open lib p framework = Inr f \<and> distinct (file_keys lib f)
      \<and> set (file_keys lib f) = set (map fst hdr) - {?md}"
    then have ok: "opened_keys lib framework p = file_keys lib f" "opens lib framework p"
      by (simp_all add: opened_keys_def opens_def)
    with a have "\<exists>self. SafetensorsWrapper lib (PathList [p]) framework = Inr self
           \<and> keys self = concat (map (opened_keys lib framework) [p])"
      by (intro construct_fresh) simp_all
    then obtain self where c: "SafetensorsWrapper lib (PathList [p]) framework = Inr self"
      and k: "keys self = file_keys lib f"
      using ok by auto
    have "len self = length (file_keys lib f)"
      using k by (simp add: len_keys)
    also have "\<dots> = card (set (map fst hdr) - {?md})"
      using a distinct_card [of "file_keys lib f"] by simp
    also have "\<dots> = card (set [k \<leftarrow> map fst hdr. k \<noteq> ?md])"
      by (rule arg_cong [where f = card]) auto
    also have "\<dots> = length [k \<leftarrow> map fst hdr. k \<noteq> ?md]"
      using a by (intro distinct_card distinct_filter) simp
    finally show "\<exists>self. SafetensorsWrapper lib (PathList [p]) framework = Inr self
           \<and> len self = length [k \<leftarrow> map fst hdr. k \<noteq> ?md]"
      using c by blast
  }
  {
    assume b: "SafetensorsWrapper lib (PathList [p1]) framework = Inr s1
      \<and> SafetensorsWrapper lib (PathList [p2]) framework = Inr s2
      \<and> set (keys s1) \<inter> set (keys s2) = {}"
    then have c1: "SafetensorsWrapper lib (PathList [p1]) framework = Inr s1"
      and c2: "SafetensorsWrapper lib (PathList [p2]) framework = Inr s2"
      and dj: "set (keys s1) \<inter> set (keys s2) = {}"
      by simp_all
    note k1 = constructed_keys [OF c1, of "[p1]"] and k2 = constructed_keys [OF c2, of "[p2]"]
    have o: "list_all (opens lib framework) [p1, p2]"
      using k1(3) k2(3) by simp
    have e1: "opened_keys lib framework p1 = keys s1" and e2: "opened_keys lib framework p2 = keys s2"
      using k1(2) k2(2) by simp_all
    have d: "distinct (concat (map (opened_keys lib framework) [p1, p2]))"
      using k1(1) k2(1) dj by (simp add: e1 e2)
    from construct_fresh [OF o d] obtain self
      where c: "SafetensorsWrapper lib (PathList [p1, p2]) framework = Inr self"
        and k: "keys self = concat (map (opened_keys lib framework) [p1, p2])"
      by blast
    have "len self = len s1 + len s2"
      using k by (simp add: len_keys e1 e2)
    with c show "\<exists>self. SafetensorsWrapper lib (PathList [p1, p2]) framework = Inr self
           \<and> len self = len s1 + len s2"
      by blast
  }
qed

theorem len_counts_header_keys_witness:
  "read_safetensors_json (demo_host LittleEndian demo_files) ''ckpt/model-1.safetensors''
     = Inr (JObj [(''__metadata__'', JObj [(''format'', JStr ''pt'')]),
                  (''w1'', JObj [(''dtype'', JStr ''U8''), (''shape'', JArr [JInt 4]),
                                 (''data_offsets'', JArr [JInt 0, JInt 4])])])
   \<and> (\<exists>self. SafetensorsWrapper demo_lib (PathList [''ckpt/model-1.safetensors'']) ''pt'' = Inr self
         \<and> len self = 1)
   \<and> (\<exists>self. SafetensorsWrapper demo_lib
                 (PathList [''ckpt/model-1.safetensors'', ''ckpt/model-2.safetensors'']) ''pt''
               = Inr self
         \<and> len self = 2)"
proof -
  let ?m1 = "''ckpt/model-1.safetensors''" and ?m2 = "''ckpt/model-2.safetensors''"
  let ?hdr = "[(''__metadata__'', JObj [(''format'', JStr ''pt'')]),
               (''w1'', JObj [(''dtype'', JStr ''U8''), (''shape'', JArr [JInt 4]),
                              (''data_offsets'', JArr [JInt 0, JInt 4])])]"
  let ?s1 = "\<lparr>file_paths = [?m1], tensors = [(''w1'', ?m1)]\<rparr>"
  let ?s2 = "\<lparr>file_paths = [?m2], tensors = [(''w2'', ?m2)]\<rparr>"
  note t = len_counts_header_keys [where h = "demo_host LittleEndian demo_files"
      and p = ?m1 and lib = demo_lib and framework = "''pt''" and f = ?m1 and hdr = ?hdr
      and ?p1.0 = ?m1 and ?p2.0 = ?m2 and ?s1.0 = ?s1 and ?s2.0 = ?s2]
  have r: "read_safetensors_json (demo_host LittleEndian demo_files) ?m1 = Inr (JObj ?hdr)"
    by (simp add: demo_read_m1 loads_m1)
  have o: "safe_open demo_lib ?m1 ''pt'' = Inr ?m1" and k: "file_keys demo_lib ?m1 = [''w1'']"
    by (simp_all add: demo_lib_def)
  have "\<exists>self. SafetensorsWrapper demo_lib (PathList [?m1]) ''pt'' = Inr self
         \<and> len self = length [k \<leftarrow> map fst ?hdr. k \<noteq> ''__metadata__'']"
    using t r o k by simp
  then have a: "\<exists>self. SafetensorsWrapper demo_lib (PathList [?m1]) ''pt'' = Inr self
         \<and> len self = 1"
    by simp
  have "set (keys ?s1) \<inter> set (keys ?s2) = {}"
    by (simp add: keys_def)
  with t demo_construct_1 demo_construct_2
  have "\<exists>self. SafetensorsWrapper demo_lib (PathList [?m1, ?m2]) ''pt'' = Inr self
         \<and> len self = len ?s1 + len ?s2"
    by blast
  then have b: "\<exists>self. SafetensorsWrapper demo_lib (PathList [?m1, ?m2]) ''pt'' = Inr self
         \<and> len self = 2"
    by (simp add: len_def numeral_2_eq_2)
  from r a b show ?thesis by blast
qed

section \<open>The two accessors (C6)\<close>

text \<open>
  C6. For a name that is not in the registry, \<^verbatim>\<open>get\<close> returns the default it was
  given, and \<^verbatim>\<open>__getitem__\<close> raises \<^verbatim>\<open>KeyError\<close> with the message that names the
  tensor.
\<close>

theorem get_default_and_strict_not_found:
  assumes "key \<notin> set (keys self)"
  shows "get lib self key dflt = Inr dflt
         \<and> getitem lib self key = Inl (KeyError (not_found_message key))"
  using assms by (simp add: get_def getitem_def keys_def)

theorem get_default_and_strict_not_found_witness:
  "''w9'' \<notin> set (keys demo_wrapper)
   \<and> get demo_lib demo_wrapper ''w9'' [0] = Inr [0]
   \<and> getitem demo_lib demo_wrapper ''w9'' = Inl (KeyError (not_found_message ''w9''))"
  using get_default_and_strict_not_found [of "''w9''" demo_wrapper demo_lib "[0]"]
  by (simp add: keys_def demo_wrapper_def)

section \<open>The index\<close>

lemma entry_span_offsets: "entry_offsets v = Some (a, b) \<Longrightarrow> entry_span v = Inr (b - a)"
  by (auto simp: entry_offsets_def entry_span_def py_sub_def
      split: json.splits option.splits list.splits)

lemma index_items_ok:
  "well_formed_header items \<Longrightarrow>
   \<exists>wm'. index_items file_name items (wm, t) = Inr (wm', t + sum_list (map entry_bytes items))
      \<and> (\<forall>n. map_of wm' n =
            (if n \<noteq> ''__metadata__'' \<and> n \<in> set (map fst items) then Some file_name
             else map_of wm n))"
proof (induction items arbitrary: wm t)
  case Nil
  then show ?case by simp
next
  case (Cons kv items)
  obtain k v where kv: "kv = (k, v)" by (cases kv)
  from Cons.prems have wf: "well_formed_header items"
    by (simp add: well_formed_header_def)
  show ?case
  proof (cases "k = ''__metadata__''")
    case True
    with Cons.IH [OF wf, of wm t] kv show ?thesis
      by (auto simp: entry_bytes_def)
  next
    case False
    with Cons.prems kv obtain a b where ab: "entry_offsets v = Some (a, b)"
      by (auto simp: well_formed_header_def)
    from Cons.IH [OF wf, of "AList.update k file_name wm" "t + (b - a)"]
    obtain wm' where
      r: "index_items file_name items (AList.update k file_name wm, t + (b - a))
            = Inr (wm', t + (b - a) + sum_list (map entry_bytes items))"
      and m: "\<forall>n. map_of wm' n =
            (if n \<noteq> ''__metadata__'' \<and> n \<in> set (map fst items) then Some file_name
             else map_of (AList.update k file_name wm) n)"
      by blast
    have "index_items file_name (kv # items) (wm, t)
            = Inr (wm', t + sum_list (map entry_bytes (kv # items)))"
      using r False kv ab by (simp add: entry_span_offsets entry_bytes_def add.assoc)
    moreover have "\<forall>n. map_of wm' n =
            (if n \<noteq> ''__metadata__'' \<and> n \<in> set (map fst (kv # items)) then Some file_name
             else map_of wm n)"
      using m False kv by (auto simp: update_conv')
    ultimately show ?thesis by blast
  qed
qed

lemma find_append:
  "find P (xs @ ys) = (case find P xs of None \<Rightarrow> find P ys | Some x \<Rightarrow> Some x)"
  by (induction xs) auto

lemma index_files_ok:
  "list_all (well_formed_file h) ps \<Longrightarrow>
   \<exists>wm'. index_files h ps (wm, t)
            = Inr (wm', t + (\<Sum>p\<leftarrow>ps. sum_list (map entry_bytes (header_entries h p))))
      \<and> (\<forall>n. map_of wm' n =
            (case find (declares h n) (rev ps) of
               Some p \<Rightarrow> Some (basename p)
             | None \<Rightarrow> map_of wm n))"
proof (induction ps arbitrary: wm t)
  case Nil
  then show ?case by simp
next
  case (Cons p ps)
  from Cons.prems obtain hdr where
    rd: "read_safetensors_json h p = Inr (JObj hdr)" and wf: "well_formed_header hdr"
    by (auto simp: well_formed_file_def split: sum.splits json.splits)
  then have he: "header_entries h p = hdr"
    by (simp add: header_entries_def)
  from index_items_ok [OF wf, of "basename p" wm t] obtain wm1 where
    i: "index_items (basename p) hdr (wm, t) = Inr (wm1, t + sum_list (map entry_bytes hdr))"
    and m1: "\<forall>n. map_of wm1 n =
            (if n \<noteq> ''__metadata__'' \<and> n \<in> set (map fst hdr) then Some (basename p)
             else map_of wm n)"
    by blast
  from Cons.prems have "list_all (well_formed_file h) ps" by simp
  from Cons.IH [OF this, of wm1 "t + sum_list (map entry_bytes hdr)"] obtain wm' where
    r: "index_files h ps (wm1, t + sum_list (map entry_bytes hdr))
          = Inr (wm', t + sum_list (map entry_bytes hdr)
                  + (\<Sum>p\<leftarrow>ps. sum_list (map entry_bytes (header_entries h p))))"
    and m: "\<forall>n. map_of wm' n =
            (case find (declares h n) (rev ps) of
               Some p \<Rightarrow> Some (basename p)
             | None \<Rightarrow> map_of wm1 n)"
    by blast
  have "index_files h (p # ps) (wm, t)
          = Inr (wm', t + (\<Sum>p\<leftarrow>p # ps. sum_list (map entry_bytes (header_entries h p))))"
    using rd i r by (simp add: he add.assoc)
  moreover have "\<forall>n. map_of wm' n =
            (case find (declares h n) (rev (p # ps)) of
               Some p \<Rightarrow> Some (basename p)
             | None \<Rightarrow> map_of wm n)"
    using m m1 by (auto simp: find_append declares_def he split: option.splits)
  ultimately show ?case by blast
qed

lemma get_index_weight_map_find:
  assumes "list_all (well_formed_file h) (file_paths self)"
  shows "\<exists>idx. get_index h self = Inr idx
           \<and> map_of (index_weight_map idx) name =
               map_option basename (find (declares h name) (rev (file_paths self)))"
proof -
  from index_files_ok [OF assms, of "[]" 0] obtain wm' t' where
    r: "index_files h (file_paths self) ([], 0) = Inr (wm', t')"
    and m: "\<forall>n. map_of wm' n =
            (case find (declares h n) (rev (file_paths self)) of
               Some p \<Rightarrow> Some (basename p)
             | None \<Rightarrow> map_of [] n)"
    by blast
  from m have "map_of wm' name =
      map_option basename (find (declares h name) (rev (file_paths self)))"
    by (cases "find (declares h name) (rev (file_paths self))") simp_all
  with r show ?thesis
    by (simp add: get_index_def)
qed

subsection \<open>The total size (C2)\<close>

text \<open>
  C2. When every loaded file parses to a dictionary with well-formed entries,
  \<^verbatim>\<open>get_index\<close> returns, and its \<^verbatim>\<open>total_size\<close> is the sum over the loaded files, in
  order, and over the entries of each header other than \<^verbatim>\<open>__metadata__\<close>, of
  \<^verbatim>\<open>data_offsets[1] - data_offsets[0]\<close>.
\<close>

theorem get_index_total_size:
  assumes "list_all (well_formed_file h) (file_paths self)"
  shows "\<exists>idx. get_index h self = Inr idx
           \<and> metadata_total_size idx =
               (\<Sum>p\<leftarrow>file_paths self. sum_list (map entry_bytes (header_entries h p)))"
proof -
  from index_files_ok [OF assms, of "[]" 0] show ?thesis
    by (auto simp: get_index_def)
qed

theorem get_index_total_size_witness:
  "list_all (well_formed_file (demo_host LittleEndian demo_files)) (file_paths demo_wrapper)
   \<and> (\<exists>idx. get_index (demo_host LittleEndian demo_files) demo_wrapper = Inr idx
         \<and> metadata_total_size idx = 8)"
proof -
  have wf: "list_all (well_formed_file (demo_host LittleEndian demo_files)) (file_paths demo_wrapper)"
    by (simp add: demo_wrapper_def demo_well_formed)
  have "(\<Sum>p\<leftarrow>file_paths demo_wrapper.
          sum_list (map entry_bytes (header_entries (demo_host LittleEndian demo_files) p))) = 8"
    by (simp add: demo_wrapper_def demo_header_entries entry_bytes_def entry_offsets_def)
  with get_index_total_size [OF wf] wf show ?thesis
    by simp
qed

subsection \<open>The weight map (C3)\<close>

text \<open>
  C3. Under the same condition, a name other than \<^verbatim>\<open>__metadata__\<close> that the header of
  the loaded file \<open>p\<close> declares, and that no file loaded after \<open>p\<close> declares, is mapped
  to the base name of \<open>p\<close>. Files loaded before \<open>p\<close> may declare the name as well:
  \<^verbatim>\<open>get_index\<close> raises nothing and the later file wins.
\<close>

theorem get_index_weight_map_basename_last_wins:
  assumes "list_all (well_formed_file h) (file_paths self)"
    and "file_paths self = ps1 @ p # ps2"
    and "declares h name p"
    and "\<not> list_ex (declares h name) ps2"
  shows "\<exists>idx. get_index h self = Inr idx
           \<and> map_of (index_weight_map idx) name = Some (basename p)"
proof -
  from assms(4) have "find (declares h name) (rev ps2) = None"
    by (simp add: find_None_iff list_ex_iff)
  with assms(2,3) have "find (declares h name) (rev (file_paths self)) = Some p"
    by (simp add: find_append)
  with get_index_weight_map_find [OF assms(1), of name] show ?thesis
    by simp
qed

theorem get_index_weight_map_basename_last_wins_witness:
  "declares (demo_host LittleEndian demo_files_later) ''w1'' ''ckpt/model-1.safetensors''
   \<and> declares (demo_host LittleEndian demo_files_later) ''w1'' ''ckpt/model-2.safetensors''
   \<and> (\<exists>idx. get_index (demo_host LittleEndian demo_files_later) demo_wrapper = Inr idx
         \<and> map_of (index_weight_map idx) ''w1'' = Some ''model-2.safetensors'')"
proof -
  let ?h = "demo_host LittleEndian demo_files_later"
  have wf: "list_all (well_formed_file ?h) (file_paths demo_wrapper)"
    by (simp add: demo_wrapper_def demo_well_formed demo_later_m1)
  have p: "file_paths demo_wrapper = [''ckpt/model-1.safetensors''] @ ''ckpt/model-2.safetensors'' # []"
    by (simp add: demo_wrapper_def)
  have d1: "declares ?h ''w1'' ''ckpt/model-1.safetensors''"
    and d2: "declares ?h ''w1'' ''ckpt/model-2.safetensors''"
    by (simp_all add: declares_def demo_header_entries demo_later_m1)
  have b: "basename ''ckpt/model-2.safetensors'' = ''model-2.safetensors''"
    by (simp add: basename_def)
  from get_index_weight_map_basename_last_wins [OF wf p d2] b d1 d2 show ?thesis
    by simp
qed

section \<open>Truncated files (C4)\<close>

text \<open>
  C4, as stated, fails: the file \<^verbatim>\<open>short\<close> declares a header of 3 bytes and holds 2, and
  \<^verbatim>\<open>read_safetensors_json\<close> returns the empty dictionary.
\<close>

theorem short_body_not_detected:
  "open_rb (demo_host LittleEndian demo_files) ''ckpt/short.safetensors''
     = Inr [3, 0, 0, 0, 0, 0, 0, 0, 123, 125]
   \<and> struct_unpack_Q LittleEndian [3, 0, 0, 0, 0, 0, 0, 0] = Inr 3
   \<and> read_safetensors_json (demo_host LittleEndian demo_files) ''ckpt/short.safetensors''
     = Inr (JObj [])"
proof -
  have "open_rb (demo_host LittleEndian demo_files) ''ckpt/short.safetensors''
     = Inr [3, 0, 0, 0, 0, 0, 0, 0, 123, 125]"
    by (simp add: demo_host_def demo_files_def)
  moreover have "struct_unpack_Q LittleEndian [3, 0, 0, 0, 0, 0, 0, 0] = Inr 3"
    by (simp add: struct_unpack_Q_def u64_le_def)
  moreover have "read_safetensors_json (demo_host LittleEndian demo_files) ''ckpt/short.safetensors''
     = Inr (JObj [])"
    by (simp add: demo_read_short loads_empty)
  ultimately show ?thesis by blast
qed

text \<open>
  C4, amended. With fewer than 8 bytes in the file the parser raises \<^verbatim>\<open>struct.error\<close>.
  With 8 bytes of prefix and fewer bytes after it than the prefix declares (a length that
  one read can allocate), the parser does not notice: its result is that of decoding and
  parsing the bytes that are there.
\<close>

theorem short_prefix_fails_short_body_is_parsed:
  "(open_rb h p = Inr f \<and> length f < 8 \<longrightarrow> read_safetensors_json h p = Inl StructError)
   \<and> (open_rb h p = Inr f \<and> struct_unpack_Q (sys_byteorder h) (take 8 f) = Inr n
        \<and> length (drop 8 f) < unat n \<and> unat n \<le> alloc_limit h \<and> unat n < 2 ^ 63
      \<longrightarrow> read_safetensors_json h p =
            (case decode_utf8 h (drop 8 f) of Inl e \<Rightarrow> Inl e | Inr s \<Rightarrow> json_loads h s))"
  by (simp add: read_safetensors_json_def struct_unpack_Q_def file_read_def)

theorem short_prefix_fails_short_body_is_parsed_witness:
  "open_rb (demo_host LittleEndian demo_files) ''ckpt/tiny.safetensors'' = Inr [2, 0, 0]
   \<and> read_safetensors_json (demo_host LittleEndian demo_files) ''ckpt/tiny.safetensors''
       = Inl StructError
   \<and> open_rb (demo_host LittleEndian demo_files) ''ckpt/short.safetensors''
       = Inr [3, 0, 0, 0, 0, 0, 0, 0, 123, 125]
   \<and> read_safetensors_json (demo_host LittleEndian demo_files) ''ckpt/short.safetensors''
       = (case decode_ascii [123, 125] of Inl e \<Rightarrow> Inl e | Inr s \<Rightarrow> loads_subset s)"
proof -
  let ?h = "demo_host LittleEndian demo_files"
  have o1: "open_rb ?h ''ckpt/tiny.safetensors'' = Inr [2, 0, 0]"
    and o2: "open_rb ?h ''ckpt/short.safetensors'' = Inr [3, 0, 0, 0, 0, 0, 0, 0, 123, 125]"
    by (simp_all add: demo_host_def demo_files_def)
  have u: "struct_unpack_Q (sys_byteorder ?h) (take 8 [3, 0, 0, 0, 0, 0, 0, 0, 123, 125]) = Inr 3"
    by (simp add: demo_host_def struct_unpack_Q_def u64_le_def)
  have l: "alloc_limit ?h = 2 ^ 32" "decode_utf8 ?h = decode_ascii" "json_loads ?h = loads_subset"
    by (simp_all add: demo_host_def)
  from short_prefix_fails_short_body_is_parsed
    [where h = ?h and p = "''ckpt/tiny.safetensors''" and f = "[2, 0, 0]"] o1
  have a: "read_safetensors_json ?h ''ckpt/tiny.safetensors'' = Inl StructError"
    by simp
  from short_prefix_fails_short_body_is_parsed
    [where h = ?h and p = "''ckpt/short.safetensors''"
       and f = "[3, 0, 0, 0, 0, 0, 0, 0, 123, 125]" and n = 3] o2 u
  have b: "read_safetensors_json ?h ''ckpt/short.safetensors''
       = (case decode_ascii [123, 125] of Inl e \<Rightarrow> Inl e | Inr s \<Rightarrow> loads_subset s)"
    by (simp add: l cong: sum.case_cong)
  from o1 a o2 b show ?thesis by blast
qed

section \<open>The byte order of the length prefix (C5)\<close>

text \<open>
  C5. The format character \<^verbatim>\<open>'Q'\<close> follows the byte order of the machine. On a
  little-endian machine the prefix \<^verbatim>\<open>36 00 00 00 00 00 00 00\<close> of the file \<^verbatim>\<open>a\<close> is read as
  54 and the header is parsed; on a big-endian machine the same bytes are read as
  \<open>54 * 2 ^ 56\<close>, and the read of that many bytes fails.
\<close>

theorem native_byte_order_misreads_on_big_endian:
  "open_rb (demo_host BigEndian demo_files) ''ckpt/a.safetensors''
     = open_rb (demo_host LittleEndian demo_files) ''ckpt/a.safetensors''
   \<and> struct_unpack_Q LittleEndian [0x36, 0, 0, 0, 0, 0, 0, 0] = Inr 0x36
   \<and> struct_unpack_Q BigEndian [0x36, 0, 0, 0, 0, 0, 0, 0] = Inr 0x3600000000000000
   \<and> read_safetensors_json (demo_host LittleEndian demo_files) ''ckpt/a.safetensors''
       = Inr (JObj [(''a'', JObj [(''dtype'', JStr ''F32''), (''shape'', JArr [JInt 2]),
                                  (''data_offsets'', JArr [JInt 0, JInt 8])])])
   \<and> read_safetensors_json (demo_host BigEndian demo_files) ''ckpt/a.safetensors''
       = Inl MemoryError"
  by (simp add: unpack_le unpack_be demo_read_a loads_a demo_read_a_be) (simp add: demo_host_def)

section \<open>The string representation (C10)\<close>

text \<open>
  C10. The string representation prints the length of the tensor registry in both
  positions: the number shown as the file count is the tensor count, whatever the list of
  loaded paths is.
\<close>

theorem repr_counts_tensors_twice:
  "repr self =
     ''<SafetensorsWrapper: '' @ str_nat (len self) @ '' tensors from ''
       @ str_nat (len self) @ '' files>''
   \<and> repr (self\<lparr>file_paths := ps\<rparr>) = repr self"
  by (simp add: repr_def len_def)

section \<open>A single path (C8)\<close>

text \<open>
  C8. Constructing with the bare path \<open>p\<close> gives the same result as constructing with the
  one-element list \<open>[p]\<close>: the same exception, or the same object (registry and list of
  loaded paths), hence the same answers to every query.
\<close>

theorem single_path_is_singleton_list:
  "SafetensorsWrapper lib (PathStr p) framework = SafetensorsWrapper lib (PathList [p]) framework
   \<and> init lib (PathStr p) framework = init lib (PathList [p]) framework"
  by (simp add: SafetensorsWrapper_def init_def)

end
